theory Spec2Isabelle
  imports Main "HOL-Library.Word" "HOL-Library.AList"
begin

section \<open>Data model\<close>

text \<open>
  The validators of \<^verbatim>\<open>builtin.go\<close> are Go closures from a field to an error
  collection. They have no state of their own; what a call can do beyond returning is
  panic: \<^verbatim>\<open>getMsg\<close> panics on more than one message, and dereferencing a nil
  pointer panics. A panic is the \<open>Inl\<close> branch of every result.
\<close>

datatype panic = Panic string | NilDereference

text \<open>
  A Go pointer is nil, or the address of a cell together with what the cell holds during
  the call. Two fields with the same name and different addresses are different map keys.
\<close>

datatype 'a ptr = NilPtr | Ptr nat 'a

fun deref :: "'a ptr \<Rightarrow> panic + 'a" where
  "deref NilPtr = Inl NilDereference"
| "deref (Ptr a x) = Inr x"

text \<open>
  \<^verbatim>\<open>time.Time\<close> of the Go standard library, as the instant it denotes: the seconds
  since January 1, year 1, 00:00:00 UTC and the nanoseconds within the second.
  \<^verbatim>\<open>IsZero\<close> reports whether the instant is that origin. The Unix epoch is
  62135596800 seconds later.
\<close>

datatype Time = Time (sec: int) (nsec: int)

definition IsZero :: "Time \<Rightarrow> bool" where
  "IsZero t = (sec t = 0 \<and> nsec t = 0)"

definition unix_epoch :: Time where
  "unix_epoch = Time 62135596800 0"

text \<open>
  A \<^verbatim>\<open>float32\<close> or \<^verbatim>\<open>float64\<close> is the word of its IEEE 754 bits. The rules only
  compare a float with the constant 0: \<^verbatim>\<open>x != 0\<close> is false for exactly the two zeros
  (all bits but the sign bit clear) and true for every other pattern, NaN included.
\<close>

definition float32_ne_zero :: "32 word \<Rightarrow> bool" where
  "float32_ne_zero x = (take_bit 31 x \<noteq> 0)"

definition float64_ne_zero :: "64 word \<Rightarrow> bool" where
  "float64_ne_zero x = (take_bit 63 x \<noteq> 0)"

text \<open>
  The dynamic type and value of \<^verbatim>\<open>field.ValuePtr\<close> (an \<^verbatim>\<open>interface{}\<close>): one
  constructor for each type the type switches of \<^verbatim>\<open>Nonzero\<close> and \<^verbatim>\<open>Len\<close> name
  (\<open>P_T\<close> is \<^verbatim>\<open>*T\<close>, \<open>PP_T\<close> is \<^verbatim>\<open>**T\<close>, \<open>PS_T\<close> is \<^verbatim>\<open>*[]T\<close>), and
  \<open>Other\<close> for every other dynamic type, the nil interface included; its number stands
  for the identity of such a value, which no rule inspects. \<^verbatim>\<open>int\<close> and \<^verbatim>\<open>uint\<close>
  are 64 bits wide. A slice is the list of its elements: the rules only take its length.
\<close>

datatype (plugins only: code) ValuePtr =
    P_uint8 "8 word ptr" | PP_uint8 "8 word ptr ptr" | PS_uint8 "8 word list ptr"
  | P_uint16 "16 word ptr" | PP_uint16 "16 word ptr ptr" | PS_uint16 "16 word list ptr"
  | P_uint32 "32 word ptr" | PP_uint32 "32 word ptr ptr" | PS_uint32 "32 word list ptr"
  | P_uint64 "64 word ptr" | PP_uint64 "64 word ptr ptr" | PS_uint64 "64 word list ptr"
  | P_int8 "8 word ptr" | PP_int8 "8 word ptr ptr" | PS_int8 "8 word list ptr"
  | P_int16 "16 word ptr" | PP_int16 "16 word ptr ptr" | PS_int16 "16 word list ptr"
  | P_int32 "32 word ptr" | PP_int32 "32 word ptr ptr" | PS_int32 "32 word list ptr"
  | P_int64 "64 word ptr" | PP_int64 "64 word ptr ptr" | PS_int64 "64 word list ptr"
  | P_float32 "32 word ptr" | PP_float32 "32 word ptr ptr" | PS_float32 "32 word list ptr"
  | P_float64 "64 word ptr" | PP_float64 "64 word ptr ptr" | PS_float64 "64 word list ptr"
  | P_uint "64 word ptr" | PP_uint "64 word ptr ptr" | PS_uint "64 word list ptr"
  | P_int "64 word ptr" | PP_int "64 word ptr ptr" | PS_int "64 word list ptr"
  | P_bool "bool ptr" | PP_bool "bool ptr ptr" | PS_bool "bool list ptr"
  | P_string "string ptr" | PP_string "string ptr ptr" | PS_string "string list ptr"
  | P_Time "Time ptr" | PP_Time "Time ptr ptr" | PS_Time "Time list ptr"
  | Other nat

text \<open>
  Modelled from the spec: the \<^verbatim>\<open>Field\<close> struct and its constructor \<^verbatim>\<open>F\<close> are
  declared outside \<^verbatim>\<open>builtin.go\<close>. A field is a name paired with a reference to the
  value being checked.
\<close>

record Field =
  Name :: string
  ValuePtr :: ValuePtr

definition F :: "string \<Rightarrow> ValuePtr \<Rightarrow> Field" where
  "F name valuePtr = \<lparr>Name = name, ValuePtr = valuePtr\<rparr>"

text \<open>
  Modelled from the spec: the error record and the \<^verbatim>\<open>Errors\<close> container are declared
  outside \<^verbatim>\<open>builtin.go\<close>. An error record is a field name and a message. An error
  collection is an ordered sequence of records with a nil-versus-empty distinction:
  \<open>None\<close> is the nil collection (no errors, success), \<open>Some es\<close> a collection that
  is present, also when \<open>es\<close> is empty. \<^verbatim>\<open>NewErrors\<close> builds the collection of one
  record. \<^verbatim>\<open>Extend\<close> is the mutating ordered append of Go slices; the model returns
  the receiver's new value. Appending no record leaves the receiver as it is, so a nil
  receiver stays nil.
\<close>

record Error =
  fieldName :: string
  message :: string

type_synonym Errors = "Error list option"

definition NewErrors :: "string \<Rightarrow> string \<Rightarrow> Errors" where
  "NewErrors field msg = Some [\<lparr>fieldName = field, message = msg\<rparr>]"

definition Extend :: "Errors \<Rightarrow> Errors \<Rightarrow> Errors" where
  "Extend e errs =
     (case errs of
        None \<Rightarrow> e
      | Some ys \<Rightarrow>
          if ys = [] then e
          else Some ((case e of None \<Rightarrow> [] | Some xs \<Rightarrow> xs) @ ys))"

text \<open>
  Modelled from the spec: the \<^verbatim>\<open>Validator\<close> interface is declared outside
  \<^verbatim>\<open>builtin.go\<close>. It has exactly one operation, \<^verbatim>\<open>Validate\<close>, from a field to an
  error collection, without side effects. A validator is that operation.
\<close>

type_synonym validateFunc = "Field \<Rightarrow> panic + Errors"

type_synonym Validator = "Field \<Rightarrow> panic + Errors"

definition FromFunc :: "validateFunc \<Rightarrow> Validator" where
  "FromFunc f = (\<lambda>field. f field)"

section \<open>Combinators\<close>

text \<open>The loop of \<^verbatim>\<open>All\<close>: the first result that is not nil is returned.\<close>

fun All_loop :: "Validator list \<Rightarrow> Field \<Rightarrow> panic + Errors" where
  "All_loop [] field = Inr None"
| "All_loop (v # validators) field =
     (case v field of
        Inl p \<Rightarrow> Inl p
      | Inr errs \<Rightarrow> if errs \<noteq> None then Inr errs else All_loop validators field)"

definition All_v :: "Validator list \<Rightarrow> Validator" where
  "All_v validators = FromFunc (\<lambda>field. All_loop validators field)"

text \<open>
  The loop of \<^verbatim>\<open>Any\<close>, with the local variable \<^verbatim>\<open>errs\<close> as an accumulator that
  starts nil.
\<close>

fun Any_loop :: "Validator list \<Rightarrow> Field \<Rightarrow> Errors \<Rightarrow> panic + Errors" where
  "Any_loop [] field errs = Inr errs"
| "Any_loop (v # validators) field errs =
     (case v field of
        Inl p \<Rightarrow> Inl p
      | Inr err \<Rightarrow> if err = None then Inr None else Any_loop validators field (Extend errs err))"

definition Any :: "Validator list \<Rightarrow> Validator" where
  "Any validators = FromFunc (\<lambda>field. Any_loop validators field None)"

text \<open>
  Modelled from the spec: the \<^verbatim>\<open>Schema\<close> type and the top-level \<^verbatim>\<open>Validate\<close>
  are declared outside \<^verbatim>\<open>builtin.go\<close>. A schema is a Go map from fields to
  validators: the list of its entries, with distinct keys, in the order in which
  \<^verbatim>\<open>range\<close> visits them; \<^verbatim>\<open>m[k] = v\<close> is \<open>AList.update k v m\<close>.
  \<^verbatim>\<open>Validate\<close> iterates all entries without short-circuit, invokes each entry's
  validator on its field, concatenates the resulting error collections, and returns nil
  when no entry failed.
\<close>

type_synonym Schema = "(Field \<times> Validator) list"

fun Validate_loop :: "Schema \<Rightarrow> Errors \<Rightarrow> panic + Errors" where
  "Validate_loop [] errs = Inr errs"
| "Validate_loop ((f, v) # schema) errs =
     (case v f of
        Inl p \<Rightarrow> Inl p
      | Inr err \<Rightarrow> Validate_loop schema (Extend errs err))"

definition Validate :: "Schema \<Rightarrow> panic + Errors" where
  "Validate schema = Validate_loop schema None"

text \<open>
  \<^verbatim>\<open>Nested\<close>: on every call the closure fills a new map with one entry for each
  entry of \<^verbatim>\<open>schema\<close> and hands it to \<^verbatim>\<open>Validate\<close>.
\<close>

definition nestedSchema :: "Schema \<Rightarrow> Field \<Rightarrow> Schema" where
  "nestedSchema schema field =
     fold (\<lambda>(f, v) m. AList.update (F (Name field @ ''.'' @ Name f) (ValuePtr f)) v m) schema []"

definition Nested :: "Schema \<Rightarrow> Validator" where
  "Nested schema = FromFunc (\<lambda>field. Validate (nestedSchema schema field))"

text \<open>
  \<^verbatim>\<open>NestedMulti\<close>: the factory \<^verbatim>\<open>f\<close> is a zero-argument Go function. What a call
  of it does besides returning (counting its calls, for instance) is made explicit as a
  state \<open>'s\<close> that the call reads and returns updated; the construction threads that
  state. The closure it returns runs the loop below, whose accumulator starts nil.
\<close>

fun NestedMulti_loop :: "Validator list \<Rightarrow> Field \<Rightarrow> Errors \<Rightarrow> panic + Errors" where
  "NestedMulti_loop [] field errs = Inr errs"
| "NestedMulti_loop (v # validators) field errs =
     (case v field of
        Inl p \<Rightarrow> Inl p
      | Inr err \<Rightarrow>
          NestedMulti_loop validators field (if err \<noteq> None then Extend errs err else errs))"

definition NestedMulti ::
  "('s \<Rightarrow> panic + Schema list \<times> 's) \<Rightarrow> 's \<Rightarrow> panic + Validator \<times> 's" where
  "NestedMulti f s =
     (case f s of
        Inl p \<Rightarrow> Inl p
      | Inr (schemas, s') \<Rightarrow>
          let validators = map Nested schemas
          in Inr (FromFunc (\<lambda>field. NestedMulti_loop validators field None), s'))"

section \<open>Leaf rules\<close>

definition getMsg :: "string \<Rightarrow> string \<Rightarrow> string list \<Rightarrow> panic + string" where
  "getMsg validatorName defaultMsg msgs =
     (if length msgs = 0 then Inr defaultMsg
      else if length msgs = 1 then Inr (msgs ! 0)
      else Inl (Panic (validatorName @ '' only accepts at most one `msg`!'')))"

text \<open>
  A rule's constructor first selects the message, which may panic, and then returns the
  closure; the closure is named after the rule, with the suffix \<open>_fn\<close>.
\<close>

definition Assert_fn :: "bool \<Rightarrow> string \<Rightarrow> validateFunc" where
  "Assert_fn b msg = (\<lambda>field. if \<not> b then Inr (NewErrors (Name field) msg) else Inr None)"

definition Assert :: "bool \<Rightarrow> string list \<Rightarrow> panic + Validator" where
  "Assert b msgs =
     (case getMsg ''Assert'' ''is invalid'' msgs of
        Inl p \<Rightarrow> Inl p
      | Inr msg \<Rightarrow> Inr (FromFunc (Assert_fn b msg)))"

text \<open>
  What a type switch of \<^verbatim>\<open>Nonzero\<close> or \<^verbatim>\<open>Len\<close> does: it returns at once an error
  with a fixed message, or it sets \<^verbatim>\<open>valid\<close> and falls through, or the dereference
  \<^verbatim>\<open>*t\<close> in the branch panics.
\<close>

datatype switched = Fixed string | Valid bool | Panicked panic

definition on_deref :: "'a ptr \<Rightarrow> ('a \<Rightarrow> bool) \<Rightarrow> switched" where
  "on_deref t c = (case deref t of Inl p \<Rightarrow> Panicked p | Inr x \<Rightarrow> Valid (c x))"

fun Nonzero_switch :: "ValuePtr \<Rightarrow> switched" where
  "Nonzero_switch (P_uint8 t) = on_deref t (\<lambda>x. x \<noteq> 0)"
| "Nonzero_switch (PP_uint8 t) = on_deref t (\<lambda>x. x \<noteq> NilPtr)"
| "Nonzero_switch (PS_uint8 t) = on_deref t (\<lambda>x. length x \<noteq> 0)"
| "Nonzero_switch (P_uint16 t) = on_deref t (\<lambda>x. x \<noteq> 0)"
| "Nonzero_switch (PP_uint16 t) = on_deref t (\<lambda>x. x \<noteq> NilPtr)"
| "Nonzero_switch (PS_uint16 t) = on_deref t (\<lambda>x. length x \<noteq> 0)"
| "Nonzero_switch (P_uint32 t) = on_deref t (\<lambda>x. x \<noteq> 0)"
| "Nonzero_switch (PP_uint32 t) = on_deref t (\<lambda>x. x \<noteq> NilPtr)"
| "Nonzero_switch (PS_uint32 t) = on_deref t (\<lambda>x. length x \<noteq> 0)"
| "Nonzero_switch (P_uint64 t) = on_deref t (\<lambda>x. x \<noteq> 0)"
| "Nonzero_switch (PP_uint64 t) = on_deref t (\<lambda>x. x \<noteq> NilPtr)"
| "Nonzero_switch (PS_uint64 t) = on_deref t (\<lambda>x. length x \<noteq> 0)"
| "Nonzero_switch (P_int8 t) = on_deref t (\<lambda>x. x \<noteq> 0)"
| "Nonzero_switch (PP_int8 t) = on_deref t (\<lambda>x. x \<noteq> NilPtr)"
| "Nonzero_switch (PS_int8 t) = on_deref t (\<lambda>x. length x \<noteq> 0)"
| "Nonzero_switch (P_int16 t) = on_deref t (\<lambda>x. x \<noteq> 0)"
| "Nonzero_switch (PP_int16 t) = on_deref t (\<lambda>x. x \<noteq> NilPtr)"
| "Nonzero_switch (PS_int16 t) = on_deref t (\<lambda>x. length x \<noteq> 0)"
| "Nonzero_switch (P_int32 t) = on_deref t (\<lambda>x. x \<noteq> 0)"
| "Nonzero_switch (PP_int32 t) = on_deref t (\<lambda>x. x \<noteq> NilPtr)"
| "Nonzero_switch (PS_int32 t) = on_deref t (\<lambda>x. length x \<noteq> 0)"
| "Nonzero_switch (P_int64 t) = on_deref t (\<lambda>x. x \<noteq> 0)"
| "Nonzero_switch (PP_int64 t) = on_deref t (\<lambda>x. x \<noteq> NilPtr)"
| "Nonzero_switch (PS_int64 t) = on_deref t (\<lambda>x. length x \<noteq> 0)"
| "Nonzero_switch (P_float32 t) = on_deref t (\<lambda>x. float32_ne_zero x)"
| "Nonzero_switch (PP_float32 t) = on_deref t (\<lambda>x. x \<noteq> NilPtr)"
| "Nonzero_switch (PS_float32 t) = on_deref t (\<lambda>x. length x \<noteq> 0)"
| "Nonzero_switch (P_float64 t) = on_deref t (\<lambda>x. float64_ne_zero x)"
| "Nonzero_switch (PP_float64 t) = on_deref t (\<lambda>x. x \<noteq> NilPtr)"
| "Nonzero_switch (PS_float64 t) = on_deref t (\<lambda>x. length x \<noteq> 0)"
| "Nonzero_switch (P_uint t) = on_deref t (\<lambda>x. x \<noteq> 0)"
| "Nonzero_switch (PP_uint t) = on_deref t (\<lambda>x. x \<noteq> NilPtr)"
| "Nonzero_switch (PS_uint t) = on_deref t (\<lambda>x. length x \<noteq> 0)"
| "Nonzero_switch (P_int t) = on_deref t (\<lambda>x. x \<noteq> 0)"
| "Nonzero_switch (PP_int t) = on_deref t (\<lambda>x. x \<noteq> NilPtr)"
| "Nonzero_switch (PS_int t) = on_deref t (\<lambda>x. length x \<noteq> 0)"
| "Nonzero_switch (P_bool t) = on_deref t (\<lambda>x. x \<noteq> False)"
| "Nonzero_switch (PP_bool t) = on_deref t (\<lambda>x. x \<noteq> NilPtr)"
| "Nonzero_switch (PS_bool t) = on_deref t (\<lambda>x. length x \<noteq> 0)"
| "Nonzero_switch (P_string t) = on_deref t (\<lambda>x. x \<noteq> '''')"
| "Nonzero_switch (PP_string t) = on_deref t (\<lambda>x. x \<noteq> NilPtr)"
| "Nonzero_switch (PS_string t) = on_deref t (\<lambda>x. length x \<noteq> 0)"
| "Nonzero_switch (P_Time t) = on_deref t (\<lambda>x. \<not> IsZero x)"
| "Nonzero_switch (PP_Time t) = on_deref t (\<lambda>x. x \<noteq> NilPtr)"
| "Nonzero_switch (PS_Time t) = on_deref t (\<lambda>x. length x \<noteq> 0)"
| "Nonzero_switch _ = Fixed ''of unrecognized type''"

definition Nonzero_fn :: "string \<Rightarrow> validateFunc" where
  "Nonzero_fn msg =
     (\<lambda>field. case Nonzero_switch (ValuePtr field) of
        Fixed m \<Rightarrow> Inr (NewErrors (Name field) m)
      | Panicked p \<Rightarrow> Inl p
      | Valid valid \<Rightarrow> if \<not> valid then Inr (NewErrors (Name field) msg) else Inr None)"

definition Nonzero :: "string list \<Rightarrow> panic + Validator" where
  "Nonzero msgs =
     (case getMsg ''Nonzero'' ''is zero valued'' msgs of
        Inl p \<Rightarrow> Inl p
      | Inr msg \<Rightarrow> Inr (FromFunc (Nonzero_fn msg)))"

text \<open>
  \<^verbatim>\<open>min\<close> and \<^verbatim>\<open>max\<close> are Go \<^verbatim>\<open>int\<close>s that are only compared with a length, so
  they are the integers \<open>minl\<close> and \<open>maxl\<close> here.
\<close>

fun Len_switch :: "int \<Rightarrow> int \<Rightarrow> ValuePtr \<Rightarrow> switched" where
  "Len_switch minl maxl (P_uint8 t) = Fixed ''cannot use validator `Len`''"
| "Len_switch minl maxl (PP_uint8 t) = Fixed ''cannot use validator `Len`''"
| "Len_switch minl maxl (P_uint16 t) = Fixed ''cannot use validator `Len`''"
| "Len_switch minl maxl (PP_uint16 t) = Fixed ''cannot use validator `Len`''"
| "Len_switch minl maxl (P_uint32 t) = Fixed ''cannot use validator `Len`''"
| "Len_switch minl maxl (PP_uint32 t) = Fixed ''cannot use validator `Len`''"
| "Len_switch minl maxl (P_uint64 t) = Fixed ''cannot use validator `Len`''"
| "Len_switch minl maxl (PP_uint64 t) = Fixed ''cannot use validator `Len`''"
| "Len_switch minl maxl (P_int8 t) = Fixed ''cannot use validator `Len`''"
| "Len_switch minl maxl (PP_int8 t) = Fixed ''cannot use validator `Len`''"
| "Len_switch minl maxl (P_int16 t) = Fixed ''cannot use validator `Len`''"
| "Len_switch minl maxl (PP_int16 t) = Fixed ''cannot use validator `Len`''"
| "Len_switch minl maxl (P_int32 t) = Fixed ''cannot use validator `Len`''"
| "Len_switch minl maxl (PP_int32 t) = Fixed ''cannot use validator `Len`''"
| "Len_switch minl maxl (P_int64 t) = Fixed ''cannot use validator `Len`''"
| "Len_switch minl maxl (PP_int64 t) = Fixed ''cannot use validator `Len`''"
| "Len_switch minl maxl (P_float32 t) = Fixed ''cannot use validator `Len`''"
| "Len_switch minl maxl (PP_float32 t) = Fixed ''cannot use validator `Len`''"
| "Len_switch minl maxl (P_float64 t) = Fixed ''cannot use validator `Len`''"
| "Len_switch minl maxl (PP_float64 t) = Fixed ''cannot use validator `Len`''"
| "Len_switch minl maxl (P_uint t) = Fixed ''cannot use validator `Len`''"
| "Len_switch minl maxl (PP_uint t) = Fixed ''cannot use validator `Len`''"
| "Len_switch minl maxl (P_int t) = Fixed ''cannot use validator `Len`''"
| "Len_switch minl maxl (PP_int t) = Fixed ''cannot use validator `Len`''"
| "Len_switch minl maxl (P_bool t) = Fixed ''cannot use validator `Len`''"
| "Len_switch minl maxl (PP_bool t) = Fixed ''cannot use validator `Len`''"
| "Len_switch minl maxl (PP_string t) = Fixed ''cannot use validator `Len`''"
| "Len_switch minl maxl (P_Time t) = Fixed ''cannot use validator `Len`''"
| "Len_switch minl maxl (PP_Time t) = Fixed ''cannot use validator `Len`''"
| "Len_switch minl maxl (PS_uint8 t) =
     on_deref t (\<lambda>x. let l = int (length x) in l \<ge> minl \<and> l \<le> maxl)"
| "Len_switch minl maxl (PS_uint16 t) =
     on_deref t (\<lambda>x. let l = int (length x) in l \<ge> minl \<and> l \<le> maxl)"
| "Len_switch minl maxl (PS_uint32 t) =
     on_deref t (\<lambda>x. let l = int (length x) in l \<ge> minl \<and> l \<le> maxl)"
| "Len_switch minl maxl (PS_uint64 t) =
     on_deref t (\<lambda>x. let l = int (length x) in l \<ge> minl \<and> l \<le> maxl)"
| "Len_switch minl maxl (PS_int8 t) =
     on_deref t (\<lambda>x. let l = int (length x) in l \<ge> minl \<and> l \<le> maxl)"
| "Len_switch minl maxl (PS_int16 t) =
     on_deref t (\<lambda>x. let l = int (length x) in l \<ge> minl \<and> l \<le> maxl)"
| "Len_switch minl maxl (PS_int32 t) =
     on_deref t (\<lambda>x. let l = int (length x) in l \<ge> minl \<and> l \<le> maxl)"
| "Len_switch minl maxl (PS_int64 t) =
     on_deref t (\<lambda>x. let l = int (length x) in l \<ge> minl \<and> l \<le> maxl)"
| "Len_switch minl maxl (PS_float32 t) =
     on_deref t (\<lambda>x. let l = int (length x) in l \<ge> minl \<and> l \<le> maxl)"
| "Len_switch minl maxl (PS_float64 t) =
     on_deref t (\<lambda>x. let l = int (length x) in l \<ge> minl \<and> l \<le> maxl)"
| "Len_switch minl maxl (PS_uint t) =
     on_deref t (\<lambda>x. let l = int (length x) in l \<ge> minl \<and> l \<le> maxl)"
| "Len_switch minl maxl (PS_int t) =
     on_deref t (\<lambda>x. let l = int (length x) in l \<ge> minl \<and> l \<le> maxl)"
| "Len_switch minl maxl (PS_bool t) =
     on_deref t (\<lambda>x. let l = int (length x) in l \<ge> minl \<and> l \<le> maxl)"
| "Len_switch minl maxl (P_string t) =
     on_deref t (\<lambda>x. let l = int (length x) in l \<ge> minl \<and> l \<le> maxl)"
| "Len_switch minl maxl (PS_string t) =
     on_deref t (\<lambda>x. let l = int (length x) in l \<ge> minl \<and> l \<le> maxl)"
| "Len_switch minl maxl (PS_Time t) =
     on_deref t (\<lambda>x. let l = int (length x) in l \<ge> minl \<and> l \<le> maxl)"
| "Len_switch minl maxl _ = Fixed ''of an unrecognized type''"

definition Len_fn :: "int \<Rightarrow> int \<Rightarrow> string \<Rightarrow> validateFunc" where
  "Len_fn minl maxl msg =
     (\<lambda>field. case Len_switch minl maxl (ValuePtr field) of
        Fixed m \<Rightarrow> Inr (NewErrors (Name field) m)
      | Panicked p \<Rightarrow> Inl p
      | Valid valid \<Rightarrow> if \<not> valid then Inr (NewErrors (Name field) msg) else Inr None)"

definition Len :: "int \<Rightarrow> int \<Rightarrow> string list \<Rightarrow> panic + Validator" where
  "Len minl maxl msgs =
     (case getMsg ''Len'' ''with an invalid length'' msgs of
        Inl p \<Rightarrow> Inl p
      | Inr msg \<Rightarrow> Inr (FromFunc (Len_fn minl maxl msg)))"

section \<open>The value kinds of the specification\<close>

text \<open>
  The specification groups the dynamic types into four families: scalar (numeric,
  boolean, string, date-time), nullable scalar, sequence of scalars, and unrecognized.
\<close>

datatype elem = Numeric | Boolean | String | DateTime

datatype kind = Scalar elem | Nullable elem | Sequence elem | Unrecognized

fun kind_of :: "ValuePtr \<Rightarrow> kind" where
  "kind_of (P_uint8 t) = Scalar Numeric"
| "kind_of (PP_uint8 t) = Nullable Numeric"
| "kind_of (PS_uint8 t) = Sequence Numeric"
| "kind_of (P_uint16 t) = Scalar Numeric"
| "kind_of (PP_uint16 t) = Nullable Numeric"
| "kind_of (PS_uint16 t) = Sequence Numeric"
| "kind_of (P_uint32 t) = Scalar Numeric"
| "kind_of (PP_uint32 t) = Nullable Numeric"
| "kind_of (PS_uint32 t) = Sequence Numeric"
| "kind_of (P_uint64 t) = Scalar Numeric"
| "kind_of (PP_uint64 t) = Nullable Numeric"
| "kind_of (PS_uint64 t) = Sequence Numeric"
| "kind_of (P_int8 t) = Scalar Numeric"
| "kind_of (PP_int8 t) = Nullable Numeric"
| "kind_of (PS_int8 t) = Sequence Numeric"
| "kind_of (P_int16 t) = Scalar Numeric"
| "kind_of (PP_int16 t) = Nullable Numeric"
| "kind_of (PS_int16 t) = Sequence Numeric"
| "kind_of (P_int32 t) = Scalar Numeric"
| "kind_of (PP_int32 t) = Nullable Numeric"
| "kind_of (PS_int32 t) = Sequence Numeric"
| "kind_of (P_int64 t) = Scalar Numeric"
| "kind_of (PP_int64 t) = Nullable Numeric"
| "kind_of (PS_int64 t) = Sequence Numeric"
| "kind_of (P_float32 t) = Scalar Numeric"
| "kind_of (PP_float32 t) = Nullable Numeric"
| "kind_of (PS_float32 t) = Sequence Numeric"
| "kind_of (P_float64 t) = Scalar Numeric"
| "kind_of (PP_float64 t) = Nullable Numeric"
| "kind_of (PS_float64 t) = Sequence Numeric"
| "kind_of (P_uint t) = Scalar Numeric"
| "kind_of (PP_uint t) = Nullable Numeric"
| "kind_of (PS_uint t) = Sequence Numeric"
| "kind_of (P_int t) = Scalar Numeric"
| "kind_of (PP_int t) = Nullable Numeric"
| "kind_of (PS_int t) = Sequence Numeric"
| "kind_of (P_bool t) = Scalar Boolean"
| "kind_of (PP_bool t) = Nullable Boolean"
| "kind_of (PS_bool t) = Sequence Boolean"
| "kind_of (P_string t) = Scalar String"
| "kind_of (PP_string t) = Nullable String"
| "kind_of (PS_string t) = Sequence String"
| "kind_of (P_Time t) = Scalar DateTime"
| "kind_of (PP_Time t) = Nullable DateTime"
| "kind_of (PS_Time t) = Sequence DateTime"
| "kind_of (Other n) = Unrecognized"

text \<open>
  What a reference holds, in the specification's words: nothing when the reference is
  nil; for a scalar, whether the value is the zero value of its kind; for a nullable
  scalar, whether the optional is present; for a sequence, its length. The zero value of
  a float is either of the two IEEE zeros, that of a date-time the zero instant.
\<close>

definition float32_is_zero :: "32 word \<Rightarrow> bool" where
  "float32_is_zero x = (x = 0 \<or> x = 0x80000000)"

definition float64_is_zero :: "64 word \<Rightarrow> bool" where
  "float64_is_zero x = (x = 0 \<or> x = 0x8000000000000000)"

datatype referent = Dangling | Value bool | Optional bool | Elements nat | Opaque

definition held :: "'a ptr \<Rightarrow> ('a \<Rightarrow> referent) \<Rightarrow> referent" where
  "held t g = (case t of NilPtr \<Rightarrow> Dangling | Ptr a x \<Rightarrow> g x)"

fun referent_of :: "ValuePtr \<Rightarrow> referent" where
  "referent_of (P_uint8 t) = held t (\<lambda>x. Value (x = 0))"
| "referent_of (PP_uint8 t) = held t (\<lambda>x. Optional (x \<noteq> NilPtr))"
| "referent_of (PS_uint8 t) = held t (\<lambda>x. Elements (length x))"
| "referent_of (P_uint16 t) = held t (\<lambda>x. Value (x = 0))"
| "referent_of (PP_uint16 t) = held t (\<lambda>x. Optional (x \<noteq> NilPtr))"
| "referent_of (PS_uint16 t) = held t (\<lambda>x. Elements (length x))"
| "referent_of (P_uint32 t) = held t (\<lambda>x. Value (x = 0))"
| "referent_of (PP_uint32 t) = held t (\<lambda>x. Optional (x \<noteq> NilPtr))"
| "referent_of (PS_uint32 t) = held t (\<lambda>x. Elements (length x))"
| "referent_of (P_uint64 t) = held t (\<lambda>x. Value (x = 0))"
| "referent_of (PP_uint64 t) = held t (\<lambda>x. Optional (x \<noteq> NilPtr))"
| "referent_of (PS_uint64 t) = held t (\<lambda>x. Elements (length x))"
| "referent_of (P_int8 t) = held t (\<lambda>x. Value (x = 0))"
| "referent_of (PP_int8 t) = held t (\<lambda>x. Optional (x \<noteq> NilPtr))"
| "referent_of (PS_int8 t) = held t (\<lambda>x. Elements (length x))"
| "referent_of (P_int16 t) = held t (\<lambda>x. Value (x = 0))"
| "referent_of (PP_int16 t) = held t (\<lambda>x. Optional (x \<noteq> NilPtr))"
| "referent_of (PS_int16 t) = held t (\<lambda>x. Elements (length x))"
| "referent_of (P_int32 t) = held t (\<lambda>x. Value (x = 0))"
| "referent_of (PP_int32 t) = held t (\<lambda>x. Optional (x \<noteq> NilPtr))"
| "referent_of (PS_int32 t) = held t (\<lambda>x. Elements (length x))"
| "referent_of (P_int64 t) = held t (\<lambda>x. Value (x = 0))"
| "referent_of (PP_int64 t) = held t (\<lambda>x. Optional (x \<noteq> NilPtr))"
| "referent_of (PS_int64 t) = held t (\<lambda>x. Elements (length x))"
| "referent_of (P_float32 t) = held t (\<lambda>x. Value (float32_is_zero x))"
| "referent_of (PP_float32 t) = held t (\<lambda>x. Optional (x \<noteq> NilPtr))"
| "referent_of (PS_float32 t) = held t (\<lambda>x. Elements (length x))"
| "referent_of (P_float64 t) = held t (\<lambda>x. Value (float64_is_zero x))"
| "referent_of (PP_float64 t) = held t (\<lambda>x. Optional (x \<noteq> NilPtr))"
| "referent_of (PS_float64 t) = held t (\<lambda>x. Elements (length x))"
| "referent_of (P_uint t) = held t (\<lambda>x. Value (x = 0))"
| "referent_of (PP_uint t) = held t (\<lambda>x. Optional (x \<noteq> NilPtr))"
| "referent_of (PS_uint t) = held t (\<lambda>x. Elements (length x))"
| "referent_of (P_int t) = held t (\<lambda>x. Value (x = 0))"
| "referent_of (PP_int t) = held t (\<lambda>x. Optional (x \<noteq> NilPtr))"
| "referent_of (PS_int t) = held t (\<lambda>x. Elements (length x))"
| "referent_of (P_bool t) = held t (\<lambda>x. Value (x = False))"
| "referent_of (PP_bool t) = held t (\<lambda>x. Optional (x \<noteq> NilPtr))"
| "referent_of (PS_bool t) = held t (\<lambda>x. Elements (length x))"
| "referent_of (P_string t) = held t (\<lambda>x. Value (x = ''''))"
| "referent_of (PP_string t) = held t (\<lambda>x. Optional (x \<noteq> NilPtr))"
| "referent_of (PS_string t) = held t (\<lambda>x. Elements (length x))"
| "referent_of (P_Time t) = held t (\<lambda>x. Value (x = Time 0 0))"
| "referent_of (PP_Time t) = held t (\<lambda>x. Optional (x \<noteq> NilPtr))"
| "referent_of (PS_Time t) = held t (\<lambda>x. Elements (length x))"
| "referent_of (Other n) = Opaque"

text \<open>The not-applicable group of \<^verbatim>\<open>Len\<close> as the specification words it.\<close>

fun len_not_applicable_spec :: "kind \<Rightarrow> bool" where
  "len_not_applicable_spec (Scalar e) = (e = Numeric \<or> e = Boolean \<or> e = DateTime)"
| "len_not_applicable_spec (Nullable e) = (e \<noteq> String)"
| "len_not_applicable_spec (Sequence e) = False"
| "len_not_applicable_spec Unrecognized = False"

text \<open>The group that the type switch of \<^verbatim>\<open>Len\<close> lists: every nullable kind is in it.\<close>

fun len_not_applicable :: "kind \<Rightarrow> bool" where
  "len_not_applicable (Scalar e) = (e = Numeric \<or> e = Boolean \<or> e = DateTime)"
| "len_not_applicable (Nullable e) = True"
| "len_not_applicable (Sequence e) = False"
| "len_not_applicable Unrecognized = False"

text \<open>The records of an error collection, and of a result.\<close>

definition records :: "Errors \<Rightarrow> Error list" where
  "records e = (case e of None \<Rightarrow> [] | Some es \<Rightarrow> es)"

definition returned :: "panic + Errors \<Rightarrow> Error list" where
  "returned r = (case r of Inl p \<Rightarrow> [] | Inr e \<Rightarrow> records e)"

section \<open>Example validators and fields\<close>

definition ok_v :: Validator where
  "ok_v = (\<lambda>field. Inr None)"

definition fail_v :: "string \<Rightarrow> Validator" where
  "fail_v msg = (\<lambda>field. Inr (NewErrors (Name field) msg))"


definition boom_v :: Validator where
  "boom_v = (\<lambda>field. Inl NilDereference)"

definition fld :: Field where
  "fld = F ''x'' (Other 0)"

definition city_schema :: Schema where
  "city_schema =
     [(F ''country'' (P_string (Ptr 1 ''FR'')), Nonzero_fn ''is zero valued''),
      (F ''city'' (P_string (Ptr 2 '''')), Nonzero_fn ''is zero valued'')]"

definition code_schema :: Schema where
  "code_schema = [(F ''code'' (PS_uint8 (Ptr 3 [])), Len_fn 1 5 ''with an invalid length'')]"

definition address :: Field where
  "address = F ''address'' (Other 0)"

text \<open>A factory that counts its calls in the state.\<close>

definition counting_factory :: "Schema list \<Rightarrow> nat \<Rightarrow> panic + Schema list \<times> nat" where
  "counting_factory schemas calls = Inr (schemas, Suc calls)"

section \<open>All: conjunction with short-circuit\<close>

lemma All_loop_prefix:
  "\<forall>u\<in>set ps. u f = Inr None \<Longrightarrow> All_loop (ps @ vs) f = All_loop vs f"
  by (induction ps) auto

lemma All_loop_nil_iff:
  "All_loop vs f = Inr None \<longleftrightarrow> (\<forall>u\<in>set vs. u f = Inr None)"
  by (induction vs) (auto split: sum.splits)

text \<open>
  C2. \<^verbatim>\<open>All()\<close> with no children returns nil. When every child before \<open>v\<close>
  returns nil and \<open>v\<close> returns a collection that is not nil, \<^verbatim>\<open>All\<close> returns that
  collection unchanged, whatever the later children \<open>rest\<close> are: they are not
  evaluated, so even one that would panic has no effect. \<^verbatim>\<open>All\<close> returns nil exactly
  when every child returns nil.
\<close>

theorem All_first_failure:
  "All_v [] f = Inr None \<and>
   ((\<forall>u\<in>set ps. u f = Inr None) \<and> v f = Inr (Some es) \<longrightarrow>
      All_v (ps @ v # rest) f = Inr (Some es)) \<and>
   (All_v vs f = Inr None \<longleftrightarrow> (\<forall>u\<in>set vs. u f = Inr None))"
  by (simp add: All_v_def FromFunc_def All_loop_prefix All_loop_nil_iff)

theorem All_first_failure_witness:
  "All_v [ok_v, fail_v ''a'', fail_v ''b'', boom_v] fld = Inr (NewErrors ''x'' ''a'') \<and>
   All_v [ok_v, ok_v] fld = Inr None"
  using All_first_failure [of fld "[ok_v]" "fail_v ''a''"
      "[\<lparr>fieldName = ''x'', message = ''a''\<rparr>]" "[fail_v ''b'', boom_v]" "[ok_v, ok_v]"]
  by (simp add: ok_v_def fail_v_def NewErrors_def F_def fld_def)

section \<open>Nil, not emptiness, decides\<close>



section \<open>Any: disjunction that collects all errors\<close>

lemma Extend_Some_Some:
  "Extend (Extend a (Some xs)) (Some ys) = Extend a (Some (xs @ ys))"
  by (cases a) (auto simp: Extend_def)

lemma Extend_eq_None: "Extend acc (Some es) = None \<longleftrightarrow> acc = None \<and> es = []"
  by (cases acc) (auto simp: Extend_def)

lemma Any_loop_all_fail:
  "\<forall>u\<in>set vs. \<exists>es. u f = Inr (Some es) \<Longrightarrow>
   Any_loop vs f acc = Inr (Extend acc (Some (concat (map (\<lambda>u. returned (u f)) vs))))"
proof (induction vs arbitrary: acc)
  case Nil
  show ?case by (simp add: Extend_def)
next
  case (Cons v vs)
  from Cons.prems obtain es where v: "v f = Inr (Some es)" by auto
  from Cons.prems have rest: "\<forall>u\<in>set vs. \<exists>es. u f = Inr (Some es)" by simp
  show ?case
    using Cons.IH [OF rest, of "Extend acc (Some es)"] v
    by (simp add: Extend_Some_Some returned_def records_def)
qed

lemma Any_loop_stop:
  "\<forall>u\<in>set ps. \<exists>es. u f = Inr (Some es) \<Longrightarrow> v f = Inr None \<Longrightarrow>
   Any_loop (ps @ v # rest) f acc = Inr None"
  by (induction ps arbitrary: acc) auto

lemma Any_loop_nil_iff:
  "\<forall>u\<in>set vs. \<exists>r. u f = Inr r \<Longrightarrow>
   Any_loop vs f acc = Inr None \<longleftrightarrow>
     (\<exists>u\<in>set vs. u f = Inr None) \<or> (acc = None \<and> (\<forall>u\<in>set vs. u f = Inr (Some [])))"
proof (induction vs arbitrary: acc)
  case Nil
  show ?case by simp
next
  case (Cons v vs)
  from Cons.prems obtain r where v: "v f = Inr r" by auto
  from Cons.prems have rest: "\<forall>u\<in>set vs. \<exists>r. u f = Inr r" by simp
  show ?case
  proof (cases r)
    case None
    with v show ?thesis by simp
  next
    case (Some es)
    with v Cons.IH [OF rest, of "Extend acc (Some es)"] show ?thesis
      by (auto simp: Extend_eq_None)
  qed
qed

text \<open>
  C1. The children are validators under the contract of the \<^verbatim>\<open>Validator\<close> interface:
  a result is nil (success) or a collection that holds at least one record (failure).
  \<^verbatim>\<open>Any()\<close> with no children returns nil. When every child before \<open>v\<close> returns a
  collection that is not nil and \<open>v\<close> returns nil, \<^verbatim>\<open>Any\<close> returns nil, whatever
  the later children \<open>rest\<close> are: they are not evaluated, so even one that would panic
  has no effect. When every child fails, the result is the concatenation, in order, of
  the children's error collections. \<^verbatim>\<open>Any\<close> returns nil exactly when some child
  returns nil or there is no child.
\<close>

theorem Any_first_success:
  "Any [] f = Inr None \<and>
   ((\<forall>u\<in>set ps. \<exists>es. u f = Inr (Some es)) \<and> v f = Inr None \<longrightarrow>
      Any (ps @ v # rest) f = Inr None) \<and>
   ((\<forall>u\<in>set vs. \<exists>es. es \<noteq> [] \<and> u f = Inr (Some es)) \<and> vs \<noteq> [] \<longrightarrow>
      Any vs f = Inr (Some (concat (map (\<lambda>u. returned (u f)) vs)))) \<and>
   ((\<forall>u\<in>set vs. u f = Inr None \<or> (\<exists>es. es \<noteq> [] \<and> u f = Inr (Some es))) \<longrightarrow>
      (Any vs f = Inr None \<longleftrightarrow> vs = [] \<or> (\<exists>u\<in>set vs. u f = Inr None)))"
proof -
  have empty: "Any [] f = Inr None"
    by (simp add: Any_def FromFunc_def)
  have stop: "Any (ps @ v # rest) f = Inr None"
    if "\<forall>u\<in>set ps. \<exists>es. u f = Inr (Some es)" and "v f = Inr None"
    using that by (simp add: Any_def FromFunc_def Any_loop_stop)
  have collect: "Any vs f = Inr (Some (concat (map (\<lambda>u. returned (u f)) vs)))"
    if fail: "\<forall>u\<in>set vs. \<exists>es. es \<noteq> [] \<and> u f = Inr (Some es)" and ne: "vs \<noteq> []"
  proof -
    from fail have "\<forall>u\<in>set vs. \<exists>es. u f = Inr (Some es)" by blast
    from Any_loop_all_fail [OF this, of None]
    have eq: "Any vs f = Inr (Extend None (Some (concat (map (\<lambda>u. returned (u f)) vs))))"
      by (simp add: Any_def FromFunc_def)
    from ne obtain u where u: "u \<in> set vs" by (cases vs) auto
    with fail obtain es where "es \<noteq> []" and "u f = Inr (Some es)" by blast
    then have "returned (u f) \<noteq> []"
      by (simp add: returned_def records_def)
    with u have "concat (map (\<lambda>u. returned (u f)) vs) \<noteq> []"
      by auto
    with eq show ?thesis
      by (simp add: Extend_def)
  qed
  have iff: "Any vs f = Inr None \<longleftrightarrow> vs = [] \<or> (\<exists>u\<in>set vs. u f = Inr None)"
    if abide: "\<forall>u\<in>set vs. u f = Inr None \<or> (\<exists>es. es \<noteq> [] \<and> u f = Inr (Some es))"
  proof -
    from abide have "\<forall>u\<in>set vs. \<exists>r. u f = Inr r" by blast
    from Any_loop_nil_iff [OF this, of None]
    have 1: "Any vs f = Inr None \<longleftrightarrow>
        (\<exists>u\<in>set vs. u f = Inr None) \<or> (\<forall>u\<in>set vs. u f = Inr (Some []))"
      by (simp add: Any_def FromFunc_def)
    have 2: "(\<forall>u\<in>set vs. u f = Inr (Some [])) \<longleftrightarrow> vs = []"
    proof
      assume all: "\<forall>u\<in>set vs. u f = Inr (Some [])"
      show "vs = []"
      proof (rule ccontr)
        assume "vs \<noteq> []"
        then obtain u where u: "u \<in> set vs" by (cases vs) auto
        with all have "u f = Inr (Some [])" by blast
        with abide u show False by auto
      qed
    next
      assume "vs = []"
      then show "\<forall>u\<in>set vs. u f = Inr (Some [])" by simp
    qed
    from 1 2 show ?thesis by blast
  qed
  from empty stop collect iff show ?thesis by blast
qed

theorem Any_first_success_witness:
  "Any [fail_v ''a'', ok_v, boom_v] fld = Inr None \<and>
   Any [fail_v ''a'', fail_v ''b''] fld =
     Inr (Some [\<lparr>fieldName = ''x'', message = ''a''\<rparr>, \<lparr>fieldName = ''x'', message = ''b''\<rparr>]) \<and>
   Any [fail_v ''a'', fail_v ''b''] fld \<noteq> Inr None \<and>
   Any [fail_v ''a'', ok_v] fld = Inr None"
  using Any_first_success [of fld "[fail_v ''a'']" ok_v "[boom_v]" "[fail_v ''a'', fail_v ''b'']"]
    Any_first_success [of fld "[]" ok_v "[]" "[fail_v ''a'', ok_v]"]
  by (simp add: ok_v_def fail_v_def NewErrors_def F_def fld_def returned_def records_def)

section \<open>Message selection\<close>

lemma getMsg_cases:
  "getMsg name d [] = Inr d"
  "getMsg name d [m] = Inr m"
  "1 < length msgs \<Longrightarrow>
   getMsg name d msgs = Inl (Panic (name @ '' only accepts at most one `msg`!''))"
  by (auto simp: getMsg_def)

text \<open>
  C9. Each of \<^verbatim>\<open>Assert\<close>, \<^verbatim>\<open>Nonzero\<close> and \<^verbatim>\<open>Len\<close>, constructed with no message,
  returns the rule's closure with the rule's default message; with exactly one message,
  the closure with that message; with more than one message the constructor itself
  panics, so that no validator exists that could fail later or use the first message
  only. The message selected is the one a failing validation reports.
\<close>

theorem message_selection:
  "Assert b [] = Inr (FromFunc (Assert_fn b ''is invalid'')) \<and>
   Assert b [m] = Inr (FromFunc (Assert_fn b m)) \<and>
   (1 < length msgs \<longrightarrow>
      Assert b msgs = Inl (Panic ''Assert only accepts at most one `msg`!'')) \<and>
   Nonzero [] = Inr (FromFunc (Nonzero_fn ''is zero valued'')) \<and>
   Nonzero [m] = Inr (FromFunc (Nonzero_fn m)) \<and>
   (1 < length msgs \<longrightarrow>
      Nonzero msgs = Inl (Panic ''Nonzero only accepts at most one `msg`!'')) \<and>
   Len minl maxl [] = Inr (FromFunc (Len_fn minl maxl ''with an invalid length'')) \<and>
   Len minl maxl [m] = Inr (FromFunc (Len_fn minl maxl m)) \<and>
   (1 < length msgs \<longrightarrow>
      Len minl maxl msgs = Inl (Panic ''Len only accepts at most one `msg`!'')) \<and>
   FromFunc (Assert_fn False m) f = Inr (NewErrors (Name f) m) \<and>
   FromFunc (Nonzero_fn m) (F n (P_int (Ptr a 0))) = Inr (NewErrors n m) \<and>
   FromFunc (Len_fn 1 5 m) (F n (P_string (Ptr a ''''))) = Inr (NewErrors n m)"
  by (simp add: Assert_def Nonzero_def Len_def getMsg_cases FromFunc_def Assert_fn_def
      Nonzero_fn_def Len_fn_def on_deref_def F_def)

theorem message_selection_witness:
  "Assert False [''a'', ''b''] = Inl (Panic ''Assert only accepts at most one `msg`!'') \<and>
   Nonzero [''a'', ''b'', ''c''] = Inl (Panic ''Nonzero only accepts at most one `msg`!'') \<and>
   Len 1 5 [''a'', ''b''] = Inl (Panic ''Len only accepts at most one `msg`!'')"
  using message_selection [of False "''a''" "[''a'', ''b'']" 1 5 fld "''x''" 0]
    message_selection [of False "''a''" "[''a'', ''b'', ''c'']" 1 5 fld "''x''" 0]
  by simp

section \<open>Unrecognized kinds\<close>

lemma kind_of_Unrecognized: "kind_of v = Unrecognized \<longleftrightarrow> (\<exists>n. v = Other n)"
  by (cases v) simp_all

lemma Nonzero_built: "Nonzero msgs = Inr v \<Longrightarrow> \<exists>msg. v = Nonzero_fn msg"
  by (auto simp: Nonzero_def FromFunc_def split: sum.splits)

lemma Len_built: "Len minl maxl msgs = Inr v \<Longrightarrow> \<exists>msg. v = Len_fn minl maxl msg"
  by (auto simp: Len_def FromFunc_def split: sum.splits)

text \<open>
  C6. On a field whose value is of an unrecognized kind, \<^verbatim>\<open>Nonzero\<close> returns the one
  error "of unrecognized type" and \<^verbatim>\<open>Len\<close> the one error "of an unrecognized type",
  under the field's name, whatever message the closure holds: for every validator that
  \<^verbatim>\<open>Nonzero\<close> or \<^verbatim>\<open>Len\<close> constructs, with the default or a custom message.
\<close>

theorem unrecognized_fixed_message:
  "kind_of (ValuePtr f) = Unrecognized \<longrightarrow>
     Nonzero_fn msg f = Inr (NewErrors (Name f) ''of unrecognized type'') \<and>
     Len_fn minl maxl msg f = Inr (NewErrors (Name f) ''of an unrecognized type'') \<and>
     (Nonzero msgs = Inr v \<longrightarrow> v f = Inr (NewErrors (Name f) ''of unrecognized type'')) \<and>
     (Len minl maxl msgs = Inr w \<longrightarrow>
        w f = Inr (NewErrors (Name f) ''of an unrecognized type''))"
  by (auto simp: kind_of_Unrecognized Nonzero_fn_def Len_fn_def
      dest!: Nonzero_built Len_built)

theorem unrecognized_fixed_message_witness:
  "Nonzero_fn ''custom'' (F ''x'' (Other 7)) = Inr (NewErrors ''x'' ''of unrecognized type'') \<and>
   Len_fn 1 5 ''custom'' (F ''x'' (Other 7)) =
     Inr (NewErrors ''x'' ''of an unrecognized type'') \<and>
   (\<exists>v. Nonzero [''custom''] = Inr v \<and>
      v (F ''x'' (Other 7)) = Inr (NewErrors ''x'' ''of unrecognized type''))"
  using unrecognized_fixed_message [of "F ''x'' (Other 7)" "''custom''" 1 5 "[''custom'']"
      "Nonzero_fn ''custom''"]
  by (simp add: F_def Nonzero_def getMsg_def FromFunc_def)

section \<open>Len: the kinds it cannot be used on\<close>

lemma Len_fn_not_applicable:
  "len_not_applicable (kind_of (ValuePtr f)) \<Longrightarrow>
   Len_fn minl maxl msg f = Inr (NewErrors (Name f) ''cannot use validator `Len`'')"
  by (cases "ValuePtr f") (simp_all add: Len_fn_def)

lemma Len_fn_applicable:
  "\<not> len_not_applicable (kind_of (ValuePtr f)) \<Longrightarrow>
   msg \<noteq> ''cannot use validator `Len`'' \<Longrightarrow>
   Len_fn minl maxl msg f \<noteq> Inr (NewErrors (Name f) ''cannot use validator `Len`'')"
  by (cases "ValuePtr f")
    (simp_all add: Len_fn_def on_deref_def NewErrors_def split: sum.splits)

text \<open>
  C3, as stated, fails: a nullable string is in the group. \<^verbatim>\<open>Len\<close> on a field that
  refers to a present optional string returns the fixed error, although the group as the
  specification words it leaves the nullable string out.
\<close>

theorem Len_nullable_string_counterexample:
  "kind_of (PP_string (Ptr 0 (Ptr 1 ''abc''))) = Nullable String \<and>
   \<not> len_not_applicable_spec (kind_of (PP_string (Ptr 0 (Ptr 1 ''abc'')))) \<and>
   Len_fn 1 5 ''m'' (F ''s'' (PP_string (Ptr 0 (Ptr 1 ''abc'')))) =
     Inr (NewErrors ''s'' ''cannot use validator `Len`'')"
  by (simp add: Len_fn_def F_def)

text \<open>
  C3, amended. The kinds on which \<^verbatim>\<open>Len\<close> returns the fixed error "cannot use
  validator `Len`", whatever the bounds, the message and the value are (the reference is
  not even read), are the plain numeric, boolean and date-time kinds and every nullable
  kind, the nullable string included. On every other kind a validator whose own message
  differs from the fixed one never returns that error.
\<close>

theorem Len_not_applicable_group:
  "(len_not_applicable (kind_of (ValuePtr f)) \<longrightarrow>
      Len_fn minl maxl msg f = Inr (NewErrors (Name f) ''cannot use validator `Len`'')) \<and>
   (\<not> len_not_applicable (kind_of (ValuePtr f)) \<and> msg \<noteq> ''cannot use validator `Len`'' \<longrightarrow>
      Len_fn minl maxl msg f \<noteq> Inr (NewErrors (Name f) ''cannot use validator `Len`''))"
  using Len_fn_not_applicable Len_fn_applicable by blast

theorem Len_not_applicable_group_witness:
  "Len_fn 1 5 ''m'' (F ''n'' (P_int (Ptr 0 3))) =
     Inr (NewErrors ''n'' ''cannot use validator `Len`'') \<and>
   Len_fn 1 5 ''m'' (F ''s'' (P_string (Ptr 0 ''abc''))) \<noteq>
     Inr (NewErrors ''s'' ''cannot use validator `Len`'')"
  using Len_not_applicable_group [of "F ''n'' (P_int (Ptr 0 3))" 1 5 "''m''"]
    Len_not_applicable_group [of "F ''s'' (P_string (Ptr 0 ''abc''))" 1 5 "''m''"]
  by (simp add: F_def)

section \<open>Len: strings and sequences\<close>

lemma Len_fn_Elements:
  "referent_of (ValuePtr f) = Elements n \<Longrightarrow>
   Len_fn minl maxl msg f =
     (if minl \<le> int n \<and> int n \<le> maxl then Inr None else Inr (NewErrors (Name f) msg))"
  by (cases "ValuePtr f")
    (auto simp: Len_fn_def on_deref_def held_def Let_def split: ptr.splits)

lemma Len_fn_string:
  "ValuePtr f = P_string (Ptr a s) \<Longrightarrow>
   Len_fn minl maxl msg f =
     (if minl \<le> int (length s) \<and> int (length s) \<le> maxl then Inr None
      else Inr (NewErrors (Name f) msg))"
  by (simp add: Len_fn_def on_deref_def Let_def)

text \<open>
  C5. On a field that refers to a string or to a sequence of \<open>n\<close> elements,
  \<^verbatim>\<open>Len(min, max)\<close> returns nil exactly when \<open>min \<le> n \<le> max\<close>, both bounds
  included, and the one error with its message otherwise; so with \<open>max < min\<close> it
  fails on every such value.
\<close>

theorem Len_within_bounds:
  "(referent_of (ValuePtr f) = Elements n \<or> (\<exists>a s. ValuePtr f = P_string (Ptr a s) \<and> n = length s)) \<longrightarrow>
     Len_fn minl maxl msg f =
       (if minl \<le> int n \<and> int n \<le> maxl then Inr None else Inr (NewErrors (Name f) msg)) \<and>
     (Len_fn minl maxl msg f = Inr None \<longleftrightarrow> minl \<le> int n \<and> int n \<le> maxl) \<and>
     (maxl < minl \<longrightarrow> Len_fn minl maxl msg f = Inr (NewErrors (Name f) msg))"
proof (intro impI)
  assume "referent_of (ValuePtr f) = Elements n \<or> (\<exists>a s. ValuePtr f = P_string (Ptr a s) \<and> n = length s)"
  then have eq: "Len_fn minl maxl msg f =
       (if minl \<le> int n \<and> int n \<le> maxl then Inr None else Inr (NewErrors (Name f) msg))"
    using Len_fn_Elements Len_fn_string by blast
  show "Len_fn minl maxl msg f =
       (if minl \<le> int n \<and> int n \<le> maxl then Inr None else Inr (NewErrors (Name f) msg)) \<and>
     (Len_fn minl maxl msg f = Inr None \<longleftrightarrow> minl \<le> int n \<and> int n \<le> maxl) \<and>
     (maxl < minl \<longrightarrow> Len_fn minl maxl msg f = Inr (NewErrors (Name f) msg))"
    unfolding eq by (auto simp: NewErrors_def)
qed

theorem Len_within_bounds_witness:
  "Len_fn 1 5 ''m'' (F ''s'' (P_string (Ptr 0 ''abc''))) = Inr None \<and>
   Len_fn 1 5 ''m'' (F ''s'' (P_string (Ptr 0 ''''))) = Inr (NewErrors ''s'' ''m'') \<and>
   Len_fn 1 5 ''m'' (F ''s'' (PS_int (Ptr 0 [1, 2, 3, 4, 5, 6]))) = Inr (NewErrors ''s'' ''m'') \<and>
   Len_fn 5 1 ''m'' (F ''s'' (PS_Time (Ptr 0 [unix_epoch, unix_epoch]))) = Inr (NewErrors ''s'' ''m'')"
  using Len_within_bounds [of "F ''s'' (P_string (Ptr 0 ''abc''))" 3 1 5 "''m''"]
    Len_within_bounds [of "F ''s'' (P_string (Ptr 0 ''''))" 0 1 5 "''m''"]
    Len_within_bounds [of "F ''s'' (PS_int (Ptr 0 [1, 2, 3, 4, 5, 6]))" 6 1 5 "''m''"]
    Len_within_bounds [of "F ''s'' (PS_Time (Ptr 0 [unix_epoch, unix_epoch]))" 2 5 1 "''m''"]
  by (simp add: F_def held_def)

section \<open>Nonzero\<close>

lemma float32_zero_iff: "float32_ne_zero x \<longleftrightarrow> \<not> float32_is_zero x"
proof -
  have lt: "unat x < 2 ^ 32" using unsigned_less [of x, where 'a = nat] by simp
  have "take_bit 31 x = 0 \<longleftrightarrow> unat (take_bit 31 x) = 0"
    by (simp only: unsigned_eq_0_iff)
  also have "\<dots> \<longleftrightarrow> take_bit 31 (unat x) = 0"
    by (simp only: unsigned_take_bit_eq)
  also have "\<dots> \<longleftrightarrow> unat x mod 2 ^ 31 = 0"
    by (simp only: take_bit_eq_mod)
  also have "\<dots> \<longleftrightarrow> unat x = 0 \<or> unat x = 2 ^ 31"
    using lt by auto
  also have "\<dots> \<longleftrightarrow> x = 0 \<or> x = 0x80000000"
    by (simp add: word_eq_iff_unsigned [where 'a = nat])
  finally show ?thesis by (simp add: float32_ne_zero_def float32_is_zero_def)
qed

lemma float64_zero_iff: "float64_ne_zero x \<longleftrightarrow> \<not> float64_is_zero x"
proof -
  have lt: "unat x < 2 ^ 64" using unsigned_less [of x, where 'a = nat] by simp
  have "take_bit 63 x = 0 \<longleftrightarrow> unat (take_bit 63 x) = 0"
    by (simp only: unsigned_eq_0_iff)
  also have "\<dots> \<longleftrightarrow> take_bit 63 (unat x) = 0"
    by (simp only: unsigned_take_bit_eq)
  also have "\<dots> \<longleftrightarrow> unat x mod 2 ^ 63 = 0"
    by (simp only: take_bit_eq_mod)
  also have "\<dots> \<longleftrightarrow> unat x = 0 \<or> unat x = 2 ^ 63"
    using lt by auto
  also have "\<dots> \<longleftrightarrow> x = 0 \<or> x = 0x8000000000000000"
    by (simp add: word_eq_iff_unsigned [where 'a = nat])
  finally show ?thesis by (simp add: float64_ne_zero_def float64_is_zero_def)
qed

lemma IsZero_iff: "IsZero x \<longleftrightarrow> x = Time 0 0"
  by (cases x) (simp add: IsZero_def)

lemma Nonzero_fn_Value:
  "referent_of (ValuePtr f) = Value z \<Longrightarrow>
   Nonzero_fn msg f = (if z then Inr (NewErrors (Name f) msg) else Inr None)"
  by (cases "ValuePtr f")
    (auto simp: Nonzero_fn_def on_deref_def held_def float32_zero_iff float64_zero_iff
      IsZero_iff split: ptr.splits)

lemma Nonzero_fn_Optional:
  "referent_of (ValuePtr f) = Optional p \<Longrightarrow>
   Nonzero_fn msg f = (if p then Inr None else Inr (NewErrors (Name f) msg))"
  by (cases "ValuePtr f")
    (auto simp: Nonzero_fn_def on_deref_def held_def split: ptr.splits)

lemma Nonzero_fn_Elements:
  "referent_of (ValuePtr f) = Elements n \<Longrightarrow>
   Nonzero_fn msg f = (if n \<noteq> 0 then Inr None else Inr (NewErrors (Name f) msg))"
  by (cases "ValuePtr f")
    (auto simp: Nonzero_fn_def on_deref_def held_def split: ptr.splits)

lemma referent_of_kind:
  "referent_of v = Dangling \<or>
   (case kind_of v of
      Scalar e \<Rightarrow> \<exists>z. referent_of v = Value z
    | Nullable e \<Rightarrow> \<exists>p. referent_of v = Optional p
    | Sequence e \<Rightarrow> \<exists>n. referent_of v = Elements n
    | Unrecognized \<Rightarrow> referent_of v = Opaque)"
  by (cases v) (auto simp: held_def split: ptr.splits)

text \<open>
  C4. On a field whose reference is live, \<^verbatim>\<open>Nonzero\<close> returns nil or the one error
  with its message under the field's name, according to the family of the value: for a
  plain scalar (numeric of any width and signedness, boolean, string, date-time) it
  succeeds exactly when the value is not the zero value of its kind; for a nullable
  scalar, exactly when the optional is present, whatever it points to; for a sequence,
  exactly when its length is not zero. Every live reference of a recognized kind falls
  under the case of its family. The zero date-time is the zero instant, not the Unix
  epoch. The message is "is zero valued" when none is given, else the one given.
\<close>

theorem Nonzero_by_kind:
  "(referent_of (ValuePtr f) = Value z \<longrightarrow>
      Nonzero_fn msg f = (if z then Inr (NewErrors (Name f) msg) else Inr None)) \<and>
   (referent_of (ValuePtr f) = Optional p \<longrightarrow>
      Nonzero_fn msg f = (if p then Inr None else Inr (NewErrors (Name f) msg))) \<and>
   (referent_of (ValuePtr f) = Elements n \<longrightarrow>
      Nonzero_fn msg f = (if n \<noteq> 0 then Inr None else Inr (NewErrors (Name f) msg))) \<and>
   (referent_of (ValuePtr f) = Dangling \<or>
      (case kind_of (ValuePtr f) of
         Scalar e \<Rightarrow> \<exists>z. referent_of (ValuePtr f) = Value z
       | Nullable e \<Rightarrow> \<exists>p. referent_of (ValuePtr f) = Optional p
       | Sequence e \<Rightarrow> \<exists>n. referent_of (ValuePtr f) = Elements n
       | Unrecognized \<Rightarrow> referent_of (ValuePtr f) = Opaque)) \<and>
   Nonzero_fn msg (F name (P_Time (Ptr a unix_epoch))) = Inr None \<and>
   Nonzero_fn msg (F name (P_Time (Ptr a (Time 0 0)))) = Inr (NewErrors name msg) \<and>
   Nonzero [] = Inr (FromFunc (Nonzero_fn ''is zero valued'')) \<and>
   Nonzero [m] = Inr (FromFunc (Nonzero_fn m))"
proof -
  have "Nonzero_fn msg (F name (P_Time (Ptr a unix_epoch))) = Inr None"
    by (simp add: Nonzero_fn_def on_deref_def F_def IsZero_def unix_epoch_def)
  moreover have "Nonzero_fn msg (F name (P_Time (Ptr a (Time 0 0)))) = Inr (NewErrors name msg)"
    by (simp add: Nonzero_fn_def on_deref_def F_def IsZero_def)
  moreover have "Nonzero [] = Inr (FromFunc (Nonzero_fn ''is zero valued''))"
    and "Nonzero [m] = Inr (FromFunc (Nonzero_fn m))"
    by (simp_all add: Nonzero_def getMsg_cases)
  ultimately show ?thesis
    using Nonzero_fn_Value [of f z msg] Nonzero_fn_Optional [of f p msg]
      Nonzero_fn_Elements [of f n msg] referent_of_kind [of "ValuePtr f"]
    by blast
qed

theorem Nonzero_by_kind_witness:
  "Nonzero_fn ''is zero valued'' (F ''age'' (P_int (Ptr 0 0))) =
     Inr (NewErrors ''age'' ''is zero valued'') \<and>
   Nonzero_fn ''is zero valued'' (F ''name'' (P_string (Ptr 0 ''abc''))) = Inr None \<and>
   Nonzero_fn ''is zero valued'' (F ''x'' (P_float64 (Ptr 0 0x8000000000000000))) =
     Inr (NewErrors ''x'' ''is zero valued'') \<and>
   Nonzero_fn ''is zero valued'' (F ''nick'' (PP_string (Ptr 0 NilPtr))) =
     Inr (NewErrors ''nick'' ''is zero valued'') \<and>
   Nonzero_fn ''is zero valued'' (F ''count'' (PP_int (Ptr 0 (Ptr 1 0)))) = Inr None \<and>
   Nonzero_fn ''is zero valued'' (F ''tags'' (PS_string (Ptr 0 []))) =
     Inr (NewErrors ''tags'' ''is zero valued'') \<and>
   Nonzero_fn ''is zero valued'' (F ''tags'' (PS_string (Ptr 0 ['''']))) = Inr None"
  using Nonzero_by_kind [of "F ''age'' (P_int (Ptr 0 0))" True "''is zero valued''"]
    Nonzero_by_kind [of "F ''name'' (P_string (Ptr 0 ''abc''))" False "''is zero valued''"]
    Nonzero_by_kind [of "F ''x'' (P_float64 (Ptr 0 0x8000000000000000))" True "''is zero valued''"]
    Nonzero_by_kind [of "F ''nick'' (PP_string (Ptr 0 NilPtr))" _ "''is zero valued''" False]
    Nonzero_by_kind [of "F ''count'' (PP_int (Ptr 0 (Ptr 1 0)))" _ "''is zero valued''" True]
    Nonzero_by_kind [of "F ''tags'' (PS_string (Ptr 0 []))" _ "''is zero valued''" _ 0]
    Nonzero_by_kind [of "F ''tags'' (PS_string (Ptr 0 ['''']))" _ "''is zero valued''" _ 1]
  by (simp add: F_def held_def float64_is_zero_def)

section \<open>Nested\<close>

lemma update_fresh: "k \<notin> fst ` set al \<Longrightarrow> AList.update k v al = al @ [(k, v)]"
  by (induction al) auto

lemma dotted_inj: "inj (\<lambda>g :: Field. F (n @ ''.'' @ Name g) (ValuePtr g))"
proof (rule injI)
  fix g h :: Field
  assume "F (n @ ''.'' @ Name g) (ValuePtr g) = F (n @ ''.'' @ Name h) (ValuePtr h)"
  then have "Name g = Name h" and "ValuePtr g = ValuePtr h"
    by (simp_all add: F_def)
  then show "g = h"
    by (cases g; cases h) simp
qed

lemma fold_update_distinct:
  assumes "inj r"
  shows "distinct (map fst schema) \<Longrightarrow> fst ` set acc \<inter> r ` fst ` set schema = {} \<Longrightarrow>
     fold (\<lambda>(g, v) m. AList.update (r g) v m) schema acc = acc @ map (\<lambda>(g, v). (r g, v)) schema"
proof (induction schema arbitrary: acc)
  case Nil
  show ?case by simp
next
  case (Cons e schema)
  obtain g v where e: "e = (g, v)" by (cases e)
  from Cons.prems e have fresh: "r g \<notin> fst ` set acc" by auto
  from Cons.prems e have d: "distinct (map fst schema)" and g: "g \<notin> fst ` set schema" by auto
  have "fst ` set (acc @ [(r g, v)]) \<inter> r ` fst ` set schema = {}"
    using Cons.prems(2) g e assms by (auto simp: inj_def)
  from Cons.IH [OF d this] show ?case
    using e by (simp add: update_fresh [OF fresh])
qed

lemma nestedSchema_distinct:
  "distinct (map fst schema) \<Longrightarrow>
   nestedSchema schema f =
     map (\<lambda>(g, v). (F (Name f @ ''.'' @ Name g) (ValuePtr g), v)) schema"
  using fold_update_distinct [OF dotted_inj, of schema "[]" "Name f"]
  by (simp add: nestedSchema_def)

lemma Extend_records: "Extend acc err = Extend acc (Some (records err))"
  by (cases err) (auto simp: Extend_def records_def)

lemma Validate_loop_all:
  "\<forall>(g, v)\<in>set schema. \<exists>r. v g = Inr r \<Longrightarrow>
   Validate_loop schema acc =
     Inr (Extend acc (Some (concat (map (\<lambda>(g, v). returned (v g)) schema))))"
proof (induction schema arbitrary: acc)
  case Nil
  show ?case by (simp add: Extend_def)
next
  case (Cons e schema)
  obtain g v where e: "e = (g, v)" by (cases e)
  from Cons.prems e obtain r where r: "v g = Inr r" by auto
  from Cons.prems have rest: "\<forall>(g, v)\<in>set schema. \<exists>r. v g = Inr r" by simp
  show ?case
    using Cons.IH [OF rest, of "Extend acc r"] e r
    by (simp add: returned_def Extend_records [of acc r] Extend_Some_Some)
qed

lemma Validate_loop_shape:
  "Validate_loop schema acc = Inr r \<Longrightarrow> acc \<noteq> Some [] \<Longrightarrow> r \<noteq> Some []"
proof (induction schema arbitrary: acc)
  case Nil
  then show ?case by simp
next
  case (Cons e schema)
  obtain g v where e: "e = (g, v)" by (cases e)
  from Cons.prems e obtain err where err: "v g = Inr err"
    and loop: "Validate_loop schema (Extend acc err) = Inr r"
    by (auto split: sum.splits)
  have "Extend acc err \<noteq> Some []"
    using Cons.prems(2) by (cases acc; cases err) (auto simp: Extend_def)
  from Cons.IH [OF loop this] show ?case .
qed

lemma Nested_not_empty: "Nested schema f \<noteq> Inr (Some [])"
  using Validate_loop_shape [of "nestedSchema schema f" None "Some []"]
  by (auto simp: Nested_def FromFunc_def Validate_def)

text \<open>
  C7. A call of \<^verbatim>\<open>Nested(schema)\<close> on a field \<open>f\<close> returns what \<^verbatim>\<open>Validate\<close>
  returns on the schema it has just built. For a schema with distinct keys (as every Go
  map has) the entries of that schema are, one for one, the inner entries with the field
  name \<open>Name f @ ''.'' @ Name g\<close>, the inner value reference and the inner validator.
  When no inner validator panics, the result holds the records that the inner validators
  return on those renamed fields; a failing sub-field \<open>city\<close> under \<open>address\<close> is
  reported as \<open>address.city\<close>.
\<close>

theorem Nested_dotted_names:
  "Nested schema f = Validate (nestedSchema schema f) \<and>
   (distinct (map fst schema) \<longrightarrow>
      nestedSchema schema f =
        map (\<lambda>(g, v). (F (Name f @ ''.'' @ Name g) (ValuePtr g), v)) schema \<and>
      ((\<forall>(g, v)\<in>set schema. \<exists>r. v (F (Name f @ ''.'' @ Name g) (ValuePtr g)) = Inr r) \<longrightarrow>
         Nested schema f =
           (let es = concat (map (\<lambda>(g, v).
                  returned (v (F (Name f @ ''.'' @ Name g) (ValuePtr g)))) schema)
            in Inr (if es = [] then None else Some es))))"
proof -
  have 1: "Nested schema f = Validate (nestedSchema schema f)"
    by (simp add: Nested_def FromFunc_def)
  have 2: "Nested schema f =
           (let es = concat (map (\<lambda>(g, v).
                  returned (v (F (Name f @ ''.'' @ Name g) (ValuePtr g)))) schema)
            in Inr (if es = [] then None else Some es))"
    if d: "distinct (map fst schema)"
      and ret: "\<forall>(g, v)\<in>set schema. \<exists>r. v (F (Name f @ ''.'' @ Name g) (ValuePtr g)) = Inr r"
  proof -
    let ?n = "map (\<lambda>(g, v). (F (Name f @ ''.'' @ Name g) (ValuePtr g), v)) schema"
    have "\<forall>(g, v)\<in>set ?n. \<exists>r. v g = Inr r"
      using ret by auto
    from Validate_loop_all [OF this, of None]
    have v: "Validate ?n = Inr (Extend None (Some (concat (map (\<lambda>(g, v). returned (v g)) ?n))))"
      by (simp add: Validate_def)
    have m: "map (\<lambda>(g, v). returned (v g)) ?n =
        map (\<lambda>(g, v). returned (v (F (Name f @ ''.'' @ Name g) (ValuePtr g)))) schema"
      by (induction schema) auto
    have "Nested schema f =
        Inr (Extend None (Some (concat (map (\<lambda>(g, v).
          returned (v (F (Name f @ ''.'' @ Name g) (ValuePtr g)))) schema))))"
      unfolding 1 nestedSchema_distinct [OF d] v m ..
    then show ?thesis
      by (simp add: Extend_def Let_def)
  qed
  show ?thesis
    using 1 2 nestedSchema_distinct by blast
qed

theorem Nested_dotted_names_witness:
  "Nested city_schema address =
     Inr (Some [\<lparr>fieldName = ''address.city'', message = ''is zero valued''\<rparr>])"
proof -
  have d: "distinct (map fst city_schema)"
    by (simp add: city_schema_def F_def)
  have r: "\<forall>(g, v)\<in>set city_schema.
      \<exists>r. v (F (Name address @ ''.'' @ Name g) (ValuePtr g)) = Inr r"
    by (simp add: city_schema_def Nonzero_fn_def on_deref_def F_def)
  from Nested_dotted_names [of city_schema address] d r
  have "Nested city_schema address =
      (let es = concat (map (\<lambda>(g, v).
             returned (v (F (Name address @ ''.'' @ Name g) (ValuePtr g)))) city_schema)
       in Inr (if es = [] then None else Some es))"
    by blast
  then show ?thesis
    by (simp add: city_schema_def address_def F_def Nonzero_fn_def on_deref_def
        returned_def records_def NewErrors_def)
qed

section \<open>NestedMulti\<close>

lemma NestedMulti_loop_all:
  "\<forall>v\<in>set vs. \<exists>r. v f = Inr r \<Longrightarrow>
   NestedMulti_loop vs f acc =
     Inr (Extend acc (Some (concat (map (\<lambda>v. returned (v f)) vs))))"
proof (induction vs arbitrary: acc)
  case Nil
  show ?case by (simp add: Extend_def)
next
  case (Cons v vs)
  from Cons.prems obtain r where r: "v f = Inr r" by auto
  from Cons.prems have rest: "\<forall>v\<in>set vs. \<exists>r. v f = Inr r" by simp
  have step: "NestedMulti_loop (v # vs) f acc =
      NestedMulti_loop vs f (Extend acc (Some (records r)))"
    using r by (cases r) (simp_all add: Extend_def records_def)
  have "Extend (Extend acc (Some (records r))) (Some (concat (map (\<lambda>v. returned (v f)) vs))) =
      Extend acc (Some (concat (map (\<lambda>v. returned (v f)) (v # vs))))"
    using r by (simp add: Extend_Some_Some returned_def)
  with Cons.IH [OF rest, of "Extend acc (Some (records r))"] step show ?case
    by simp
qed

lemma NestedMulti_loop_panic:
  "\<exists>v\<in>set vs. \<exists>p. v f = Inl p \<Longrightarrow> \<exists>p. NestedMulti_loop vs f acc = Inl p"
  by (induction vs arbitrary: acc) (auto split: sum.splits)

lemma NestedMulti_loop_nil_iff:
  "\<forall>v\<in>set vs. v f \<noteq> Inr (Some []) \<Longrightarrow>
   NestedMulti_loop vs f acc = Inr None \<longleftrightarrow> acc = None \<and> (\<forall>v\<in>set vs. v f = Inr None)"
proof (induction vs arbitrary: acc)
  case Nil
  show ?case by simp
next
  case (Cons v vs)
  from Cons.prems have rest: "\<forall>v\<in>set vs. v f \<noteq> Inr (Some [])"
    and v: "v f \<noteq> Inr (Some [])" by simp_all
  show ?case
  proof (cases "v f")
    case (Inl p)
    then show ?thesis by simp
  next
    case (Inr r)
    show ?thesis
    proof (cases r)
      case None
      with Inr Cons.IH [OF rest, of acc] show ?thesis by simp
    next
      case (Some es)
      with Inr v have "es \<noteq> []" by auto
      then have "Extend acc (Some es) \<noteq> None"
        by (simp add: Extend_eq_None)
      with Inr Some Cons.IH [OF rest, of "Extend acc (Some es)"] show ?thesis by simp
    qed
  qed
qed

text \<open>
  C8. The constructor \<^verbatim>\<open>NestedMulti(f)\<close> calls the factory: when the call panics,
  so does the constructor; otherwise the state after the construction is the state after
  that one call, and the validator it returns depends on the schemas returned and on
  nothing else, so validating never calls the factory. On every call the validator
  evaluates every child \<^verbatim>\<open>Nested(schema)\<close> in order: when all of them return, the
  result holds the concatenation, in order, of all their records; when any of them
  panics, so does the validator, also after an earlier child has failed (no
  short-circuit); and the result is nil exactly when every child returns nil.
\<close>

theorem NestedMulti_collects_all:
  "(f s = Inl p \<longrightarrow> NestedMulti f s = Inl p) \<and>
   (f s = Inr (schemas, s') \<longrightarrow>
      (\<exists>V. NestedMulti f s = Inr (V, s') \<and>
         (\<forall>field. (\<forall>sc\<in>set schemas. \<exists>r. Nested sc field = Inr r) \<longrightarrow>
            V field =
              (let es = concat (map (\<lambda>sc. returned (Nested sc field)) schemas)
               in Inr (if es = [] then None else Some es))) \<and>
         (\<forall>field. (\<exists>sc\<in>set schemas. \<exists>q. Nested sc field = Inl q) \<longrightarrow>
            (\<exists>q. V field = Inl q)) \<and>
         (\<forall>field. V field = Inr None \<longleftrightarrow> (\<forall>sc\<in>set schemas. Nested sc field = Inr None))))"
proof (intro conjI impI)
  assume "f s = Inl p"
  then show "NestedMulti f s = Inl p"
    by (simp add: NestedMulti_def)
next
  assume fs: "f s = Inr (schemas, s')"
  let ?V = "\<lambda>field. NestedMulti_loop (map Nested schemas) field None"
  have built: "NestedMulti f s = Inr (?V, s')"
    using fs by (simp add: NestedMulti_def FromFunc_def)
  have all: "?V field =
      (let es = concat (map (\<lambda>sc. returned (Nested sc field)) schemas)
       in Inr (if es = [] then None else Some es))"
    if "\<forall>sc\<in>set schemas. \<exists>r. Nested sc field = Inr r" for field
  proof -
    from that have "\<forall>v\<in>set (map Nested schemas). \<exists>r. v field = Inr r" by simp
    from NestedMulti_loop_all [OF this, of None] show ?thesis
      by (simp add: Extend_def Let_def comp_def)
  qed
  have boom: "\<exists>q. ?V field = Inl q"
    if "\<exists>sc\<in>set schemas. \<exists>q. Nested sc field = Inl q" for field
  proof -
    from that have "\<exists>v\<in>set (map Nested schemas). \<exists>p. v field = Inl p" by simp
    from NestedMulti_loop_panic [OF this] show ?thesis .
  qed
  have nil: "?V field = Inr None \<longleftrightarrow> (\<forall>sc\<in>set schemas. Nested sc field = Inr None)" for field
  proof -
    have "\<forall>v\<in>set (map Nested schemas). v field \<noteq> Inr (Some [])"
      by (simp add: Nested_not_empty)
    from NestedMulti_loop_nil_iff [OF this, of None] show ?thesis by simp
  qed
  show "\<exists>V. NestedMulti f s = Inr (V, s') \<and>
         (\<forall>field. (\<forall>sc\<in>set schemas. \<exists>r. Nested sc field = Inr r) \<longrightarrow>
            V field =
              (let es = concat (map (\<lambda>sc. returned (Nested sc field)) schemas)
               in Inr (if es = [] then None else Some es))) \<and>
         (\<forall>field. (\<exists>sc\<in>set schemas. \<exists>q. Nested sc field = Inl q) \<longrightarrow>
            (\<exists>q. V field = Inl q)) \<and>
         (\<forall>field. V field = Inr None \<longleftrightarrow> (\<forall>sc\<in>set schemas. Nested sc field = Inr None))"
    using built all boom nil by (intro exI [of _ ?V]) blast
qed

lemma Nested_city: "Nested city_schema address =
    Inr (Some [\<lparr>fieldName = ''address.city'', message = ''is zero valued''\<rparr>])"
  by (simp add: Nested_def FromFunc_def nestedSchema_def city_schema_def address_def F_def
      Validate_def Extend_def Nonzero_fn_def on_deref_def NewErrors_def)

lemma Nested_code: "Nested code_schema address =
    Inr (Some [\<lparr>fieldName = ''address.code'', message = ''with an invalid length''\<rparr>])"
  by (simp add: Nested_def FromFunc_def nestedSchema_def code_schema_def address_def F_def
      Validate_def Extend_def Len_fn_def on_deref_def NewErrors_def)

theorem NestedMulti_collects_all_witness:
  "\<exists>V. NestedMulti (counting_factory [city_schema, code_schema]) 0 = Inr (V, 1) \<and>
     V address =
       Inr (Some [\<lparr>fieldName = ''address.city'', message = ''is zero valued''\<rparr>,
                  \<lparr>fieldName = ''address.code'', message = ''with an invalid length''\<rparr>])"
proof -
  have "counting_factory [city_schema, code_schema] 0 = Inr ([city_schema, code_schema], Suc 0)"
    by (simp add: counting_factory_def)
  with NestedMulti_collects_all [of "counting_factory [city_schema, code_schema]" 0 NilDereference
      "[city_schema, code_schema]" "Suc 0"]
  obtain V where V: "NestedMulti (counting_factory [city_schema, code_schema]) 0 = Inr (V, Suc 0)"
    and all: "\<forall>field. (\<forall>sc\<in>set [city_schema, code_schema]. \<exists>r. Nested sc field = Inr r) \<longrightarrow>
            V field =
              (let es = concat (map (\<lambda>sc. returned (Nested sc field)) [city_schema, code_schema])
               in Inr (if es = [] then None else Some es))"
    by blast
  from all have "V address =
      (let es = concat (map (\<lambda>sc. returned (Nested sc address)) [city_schema, code_schema])
       in Inr (if es = [] then None else Some es))"
    by (simp add: Nested_city Nested_code)
  then have "V address =
       Inr (Some [\<lparr>fieldName = ''address.city'', message = ''is zero valued''\<rparr>,
                  \<lparr>fieldName = ''address.code'', message = ''with an invalid length''\<rparr>])"
    by (simp add: Nested_city Nested_code returned_def records_def)
  with V show ?thesis by auto
qed

end
